theory Spec2Isabelle
  imports Complex_Main
begin

section \<open>Numbers\<close>

text \<open>
  A TypeScript \<open>number\<close> is modelled as a \<^typ>\<open>real\<close> and its arithmetic is exact: the
  rounding of binary64 is not modelled. The constants of the source (\<open>0.05\<close>, \<open>0.2\<close>,
  \<open>0.95\<close>) are the decimal fractions the source text writes. Durations and points in
  time are natural numbers of milliseconds.
\<close>

section \<open>HedgeBucket: the local hedge budget\<close>

text \<open>
  \<^verbatim>\<open>class HedgeBucket\<close>: one private field \<open>tokens\<close>, initialised to 0, and three
  read-only constants.
\<close>

record HedgeBucket =
  tokens :: real

definition maxTokens :: real where
  "maxTokens = 10"

definition hedgeCost :: real where
  "hedgeCost = 1"

definition gainPerRequest :: real where
  "gainPerRequest = 0.05"

definition HedgeBucket_new :: HedgeBucket where
  "HedgeBucket_new = \<lparr>tokens = 0\<rparr>"

definition canHedge :: "HedgeBucket \<Rightarrow> bool" where
  "canHedge b = (tokens b \<ge> hedgeCost)"

definition consumeHedge :: "HedgeBucket \<Rightarrow> HedgeBucket" where
  "consumeHedge b = b\<lparr>tokens := tokens b - hedgeCost\<rparr>"

definition inc :: "HedgeBucket \<Rightarrow> HedgeBucket" where
  "inc b = b\<lparr>tokens := min maxTokens (tokens b + gainPerRequest)\<rparr>"

text \<open>A sequence of calls on one bucket, and the bucket it leaves.\<close>

datatype bucket_call = CanHedge | ConsumeHedge | Inc

fun run_calls :: "HedgeBucket \<Rightarrow> bucket_call list \<Rightarrow> HedgeBucket" where
  "run_calls b [] = b"
| "run_calls b (CanHedge # cs) = run_calls b cs"
| "run_calls b (ConsumeHedge # cs) = run_calls (consumeHedge b) cs"
| "run_calls b (Inc # cs) = run_calls (inc b) cs"

text \<open>
  The check-before-consume contract of a call sequence: every \<open>ConsumeHedge\<close> stands
  right after a \<open>CanHedge\<close> that returned true. The flag says whether the call just
  before was such a \<open>CanHedge\<close>.
\<close>

fun checked_from :: "bool \<Rightarrow> HedgeBucket \<Rightarrow> bucket_call list \<Rightarrow> bool" where
  "checked_from chk b [] = True"
| "checked_from chk b (CanHedge # cs) = checked_from (canHedge b) b cs"
| "checked_from chk b (ConsumeHedge # cs) = (chk \<and> checked_from False (consumeHedge b) cs)"
| "checked_from chk b (Inc # cs) = checked_from False (inc b) cs"

definition check_before_consume :: "HedgeBucket \<Rightarrow> bucket_call list \<Rightarrow> bool" where
  "check_before_consume b cs = checked_from False b cs"

section \<open>LatencyTracker: the adaptive delay\<close>

record LatencyTracker =
  samples :: "real list"
  currentP95 :: real

definition maxSamples :: nat where
  "maxSamples = 100"

definition alpha :: real where
  "alpha = 0.2"

definition minFloor :: int where
  "minFloor = 25"

definition LatencyTracker_new :: LatencyTracker where
  "LatencyTracker_new = \<lparr>samples = [], currentP95 = 150\<rparr>"

text \<open>
  \<^verbatim>\<open>calculateRawP95\<close> sorts a copy of the window ascending and reads it at
  \<open>max 0 (floor (length * 0.95) - 1)\<close>. The read is in range for every non-empty window
  (lemma \<open>rawP95_index_in_range\<close>); \<^verbatim>\<open>updateSmoothedP95\<close> calls it with at least
  five samples only.
\<close>

definition rawP95_index :: "nat \<Rightarrow> nat" where
  "rawP95_index n = nat (max 0 (\<lfloor>real n * 0.95\<rfloor> - 1))"

definition calculateRawP95 :: "LatencyTracker \<Rightarrow> real" where
  "calculateRawP95 t =
     (let sorted = sort (samples t)
      in sorted ! rawP95_index (length sorted))"

definition updateSmoothedP95 :: "LatencyTracker \<Rightarrow> LatencyTracker" where
  "updateSmoothedP95 t =
     (if length (samples t) < 5 then t
      else let rawP95 = calculateRawP95 t
           in if length (samples t) < 20
              then t\<lparr>currentP95 := rawP95\<rparr>
              else t\<lparr>currentP95 := currentP95 t * (1 - alpha) + rawP95 * alpha\<rparr>)"

text \<open>\<^verbatim>\<open>shift()\<close> drops the oldest sample, \<^verbatim>\<open>push(ms)\<close> appends the new one.\<close>

definition add :: "LatencyTracker \<Rightarrow> real \<Rightarrow> LatencyTracker" where
  "add t ms =
     (let t1 = (if length (samples t) \<ge> maxSamples then t\<lparr>samples := tl (samples t)\<rparr> else t);
          t2 = t1\<lparr>samples := samples t1 @ [ms]\<rparr>
      in updateSmoothedP95 t2)"

text \<open>\<^verbatim>\<open>Math.round\<close> rounds half up, as \<^const>\<open>round\<close> does: \<open>round x = \<lfloor>x + 1/2\<rfloor>\<close>.\<close>

definition getWaitTime :: "LatencyTracker \<Rightarrow> int" where
  "getWaitTime t = max minFloor (round (currentP95 t))"

text \<open>The tracker after a sequence of \<open>add\<close> calls on a fresh instance.\<close>

definition add_all :: "LatencyTracker \<Rightarrow> real list \<Rightarrow> LatencyTracker" where
  "add_all t xs = foldl add t xs"

section \<open>Requests, responses and errors\<close>

text \<open>
  What the coordinator sees of a \<^verbatim>\<open>Response\<close>: its status, its payload, and the
  out-of-band \<open>isHedged\<close> property that \<^verbatim>\<open>Object.defineProperty\<close> adds to a
  speculative winner. \<^verbatim>\<open>res.ok\<close> is true for a status from 200 to 299.
\<close>

record Response =
  status :: nat
  body :: string
  isHedged :: bool

definition ok :: "Response \<Rightarrow> bool" where
  "ok res = (200 \<le> status res \<and> status res \<le> 299)"

datatype ResponseLabels = Primary | Speculative

text \<open>
  The values the code throws or rejects with. \<open>Thrown\<close> is a value of the caller's own
  (an abort reason, an exception of a hook); \<open>TimedOutAfter ms\<close> is the string
  \<^verbatim>\<open>Request timed out after ${timeoutMs}ms\<close>; \<open>NetworkError\<close> is a rejection of the
  transport; \<open>RetryableHTTPError\<close> and \<open>ServiceUnavailable\<close> are the two
  \<^verbatim>\<open>new Error(...)\<close> of the source; \<open>AggregateError\<close> is what
  \<^verbatim>\<open>Promise.any\<close> rejects with.
\<close>

datatype exn =
    Thrown string
  | TimedOutAfter nat
  | NetworkError
  | RetryableHTTPError nat
  | AggregateError "exn list"
  | ServiceUnavailable

text \<open>
  \<^verbatim>\<open>handleResponse\<close>: a response that is \<open>ok\<close> or has a 4xx status is returned with
  its label, any other makes it throw.
\<close>

definition handleResponse :: "Response \<Rightarrow> ResponseLabels \<Rightarrow> exn + Response \<times> ResponseLabels" where
  "handleResponse res label =
     (if ok res \<or> (status res \<ge> 400 \<and> status res < 500) then Inr (res, label)
      else Inl (RetryableHTTPError (status res)))"

subsection \<open>Headers\<close>

text \<open>
  A \<^verbatim>\<open>Headers\<close> object maps lower-cased names to values; \<^verbatim>\<open>has\<close> and
  \<^verbatim>\<open>set\<close> lower-case the name they are given, and the constructor appends the
  pairs of its argument in order, joining the values of a repeated name. Case
  conversion is modelled on the ASCII letters.
\<close>

definition toUpperCase_char :: "char \<Rightarrow> char" where
  "toUpperCase_char c =
     (case map_of (zip ''abcdefghijklmnopqrstuvwxyz'' ''ABCDEFGHIJKLMNOPQRSTUVWXYZ'') c of
        Some u \<Rightarrow> u | None \<Rightarrow> c)"

definition toLowerCase_char :: "char \<Rightarrow> char" where
  "toLowerCase_char c =
     (case map_of (zip ''ABCDEFGHIJKLMNOPQRSTUVWXYZ'' ''abcdefghijklmnopqrstuvwxyz'') c of
        Some l \<Rightarrow> l | None \<Rightarrow> c)"

definition toUpperCase :: "string \<Rightarrow> string" where
  "toUpperCase s = map toUpperCase_char s"

definition toLowerCase :: "string \<Rightarrow> string" where
  "toLowerCase s = map toLowerCase_char s"

type_synonym Headers = "string \<rightharpoonup> string"

definition Headers_append :: "Headers \<Rightarrow> string \<times> string \<Rightarrow> Headers" where
  "Headers_append h nv =
     (case h (toLowerCase (fst nv)) of
        None \<Rightarrow> h(toLowerCase (fst nv) \<mapsto> snd nv)
      | Some old \<Rightarrow> h(toLowerCase (fst nv) \<mapsto> old @ '', '' @ snd nv))"

definition Headers_new :: "(string \<times> string) list \<Rightarrow> Headers" where
  "Headers_new init = foldl Headers_append Map.empty init"

definition Headers_has :: "Headers \<Rightarrow> string \<Rightarrow> bool" where
  "Headers_has h name = (h (toLowerCase name) \<noteq> None)"

definition Headers_get :: "Headers \<Rightarrow> string \<Rightarrow> string option" where
  "Headers_get h name = h (toLowerCase name)"

definition Headers_set :: "Headers \<Rightarrow> string \<Rightarrow> string \<Rightarrow> Headers" where
  "Headers_set h name v = h(toLowerCase name \<mapsto> v)"

subsection \<open>The options of one call\<close>

text \<open>
  Time is counted in milliseconds from the call of \<^verbatim>\<open>fetch\<close>. A caller's
  \<^verbatim>\<open>AbortSignal\<close> is given by the time at which it fires (\<open>Some 0\<close>: it has fired
  when the call is made; \<open>None\<close>: it never fires) and its reason. A hook either returns
  or throws; an option that is left out is \<open>None\<close>, and \<open>forceHedge\<close> and
  \<open>autoIdempotency\<close> are false when left out.
\<close>

record AbortSignal =
  abortedAt :: "nat option"
  reason :: exn

definition aborted :: "AbortSignal \<Rightarrow> bool" where
  "aborted s = (abortedAt s = Some 0)"

datatype hook_outcome = Returns | Throws exn

record IHedgeFetchOptions =
  req_method :: "string option"
  headers :: "(string \<times> string) list"
  signal :: "AbortSignal option"
  timeoutMs :: "nat option"
  forceHedge :: bool
  autoIdempotency :: bool
  onHedge :: "hook_outcome option"
  onPrimaryWin :: "(nat \<Rightarrow> hook_outcome) option"
  onSpeculativeWin :: "(nat \<Rightarrow> hook_outcome) option"

text \<open>
  What lies outside the coordinator: how the transport answers each of the two
  attempts (after how many milliseconds the response headers arrive or the exchange
  fails, if ever) and the string \<^verbatim>\<open>crypto.randomUUID()\<close> returns.
\<close>

datatype exchange = Responds nat Response | Fails nat | Stalls

record world =
  primary_exchange :: exchange
  speculative_exchange :: exchange
  randomUUID :: string

subsection \<open>Preparing the request\<close>

definition method_of :: "IHedgeFetchOptions \<Rightarrow> string" where
  "method_of init = toUpperCase (case req_method init of None \<Rightarrow> ''GET'' | Some m \<Rightarrow> m)"

definition isSafeMethod :: "string \<Rightarrow> bool" where
  "isSafeMethod m = (m \<in> set [''GET'', ''HEAD'', ''OPTIONS''])"

definition prepare_headers :: "IHedgeFetchOptions \<Rightarrow> string \<Rightarrow> Headers" where
  "prepare_headers init uuid =
     (let hs = Headers_new (headers init)
      in if method_of init = ''POST'' \<and> (forceHedge init \<or> autoIdempotency init)
         then (if \<not> Headers_has hs ''Idempotency-Key'' \<and> autoIdempotency init
               then Headers_set hs ''Idempotency-Key'' uuid
               else hs)
         else hs)"

subsection \<open>Cancellation signals\<close>

text \<open>
  A signal made by \<^verbatim>\<open>AbortSignal.any\<close> is the list of the sources it follows; a
  controller's own signal follows that controller alone.
\<close>

datatype abort_source =
  UserSignal | PrimaryController | SpeculativeController | GlobalTimeoutController

definition primarySignal :: "IHedgeFetchOptions \<Rightarrow> abort_source list" where
  "primarySignal init =
     (if signal init \<noteq> None
      then [UserSignal, PrimaryController, GlobalTimeoutController]
      else [PrimaryController])"

definition speculativeSignal :: "IHedgeFetchOptions \<Rightarrow> abort_source list" where
  "speculativeSignal init =
     (if signal init \<noteq> None
      then [UserSignal, SpeculativeController, GlobalTimeoutController]
      else [SpeculativeController])"

text \<open>
  When a source fires while the race is open, and with which reason. The caller's
  signal fires when the caller says; the timeout controller fires \<open>timeoutMs\<close> after the
  start when \<open>timeoutMs\<close> is given and not 0; the two branch controllers are aborted by
  the clean-up code only, after the race has settled.
\<close>

definition source_fires :: "IHedgeFetchOptions \<Rightarrow> abort_source \<Rightarrow> (nat \<times> exn) option" where
  "source_fires init src =
     (case src of
        UserSignal \<Rightarrow>
          (case signal init of
             None \<Rightarrow> None
           | Some s \<Rightarrow> (case abortedAt s of None \<Rightarrow> None | Some t \<Rightarrow> Some (t, reason s)))
      | GlobalTimeoutController \<Rightarrow>
          (case timeoutMs init of
             None \<Rightarrow> None
           | Some ms \<Rightarrow> if ms = 0 then None else Some (ms, TimedOutAfter ms))
      | PrimaryController \<Rightarrow> None
      | SpeculativeController \<Rightarrow> None)"

fun earliest :: "(nat \<times> exn) option list \<Rightarrow> (nat \<times> exn) option" where
  "earliest [] = None"
| "earliest (None # fs) = earliest fs"
| "earliest (Some f # fs) =
     (case earliest fs of
        None \<Rightarrow> Some f
      | Some g \<Rightarrow> if fst f \<le> fst g then Some f else Some g)"

definition signal_aborts :: "IHedgeFetchOptions \<Rightarrow> abort_source list \<Rightarrow> (nat \<times> exn) option" where
  "signal_aborts init srcs = earliest (map (source_fires init) srcs)"

section \<open>HedgedContext: the race\<close>

text \<open>
  A promise is described by how it ends: it stays pending for ever, or it is fulfilled
  or rejected at some time. Times are whole milliseconds, and a handler runs at the
  time its promise settles. Where two events fall on the same millisecond the model
  fixes an order: a response that arrives when a signal fires is delivered, a primary
  response accepted when the hedge timer fires comes first, and of two branches
  fulfilled together the primary one wins.
\<close>

datatype 'a promise = Pending | Fulfilled nat 'a | Rejected nat exn

text \<open>
  The platform's \<^verbatim>\<open>fetch(url, {signal})\<close> started at \<open>start\<close>: it rejects at once
  with the signal's reason when the signal has fired by then, rejects with that reason
  when the signal fires before the transport has answered, and otherwise ends as the
  transport does.
\<close>

definition js_fetch :: "nat \<Rightarrow> (nat \<times> exn) option \<Rightarrow> exchange \<Rightarrow> Response promise" where
  "js_fetch start abort ex =
     (let arrival = (case ex of
                       Responds d res \<Rightarrow> Fulfilled (start + d) res
                     | Fails d \<Rightarrow> Rejected (start + d) NetworkError
                     | Stalls \<Rightarrow> Pending)
      in case abort of
           None \<Rightarrow> arrival
         | Some a \<Rightarrow>
             if fst a \<le> start then Rejected start (snd a)
             else (case arrival of
                     Pending \<Rightarrow> Rejected (fst a) (snd a)
                   | Fulfilled t res \<Rightarrow> if t \<le> fst a then arrival else Rejected (fst a) (snd a)
                   | Rejected t e \<Rightarrow> if t \<le> fst a then arrival else Rejected (fst a) (snd a)))"

text \<open>\<^verbatim>\<open>.then(res => this.handleResponse(res, label))\<close>: a rejection passes through.\<close>

definition then_handleResponse ::
  "Response promise \<Rightarrow> ResponseLabels \<Rightarrow> (Response \<times> ResponseLabels) promise" where
  "then_handleResponse p label =
     (case p of
        Pending \<Rightarrow> Pending
      | Rejected t e \<Rightarrow> Rejected t e
      | Fulfilled t res \<Rightarrow>
          (case handleResponse res label of
             Inl e \<Rightarrow> Rejected t e
           | Inr v \<Rightarrow> Fulfilled t v))"

text \<open>
  The primary request: sent at once on the primary signal, then classified. Its
  \<^verbatim>\<open>catch\<close> handler wakes the hedge and throws the error again, so the promise
  ends as the classification does.
\<close>

definition primaryRequest ::
  "IHedgeFetchOptions \<Rightarrow> world \<Rightarrow> (Response \<times> ResponseLabels) promise" where
  "primaryRequest init w =
     then_handleResponse
       (js_fetch 0 (signal_aborts init (primarySignal init)) (primary_exchange w))
       Primary"

text \<open>
  The speculative branch. Its callback runs when the timer of \<open>waitToHedgeMs\<close> fires or
  the primary request is rejected, whichever is first; it never runs when the primary
  request is accepted before the timer, since the clean-up clears the timer. When the
  bucket refuses, the callback returns a promise that nothing ever settles. Otherwise
  \<open>onHedge\<close> is called, a token is consumed and the hedge is sent with the marker
  header. The result is the branch's promise, the bucket it leaves and the headers of
  the hedge when one is sent. The promise is given as it ends when the clean-up does
  not abort the hedge; the clean-up runs once the awaited promise has settled, and
  that promise does not change afterwards.
\<close>

definition speculative_branch ::
  "HedgeBucket \<Rightarrow> IHedgeFetchOptions \<Rightarrow> world \<Rightarrow> Headers \<Rightarrow> nat \<Rightarrow>
   (Response \<times> ResponseLabels) promise \<Rightarrow>
   (Response \<times> ResponseLabels) promise \<times> HedgeBucket \<times> Headers option" where
  "speculative_branch bucket init w hs waitToHedgeMs primary =
     (let woken = (case primary of
                     Fulfilled tp v \<Rightarrow> if tp \<le> waitToHedgeMs then None else Some waitToHedgeMs
                   | Rejected tp e \<Rightarrow> Some (min waitToHedgeMs tp)
                   | Pending \<Rightarrow> Some waitToHedgeMs)
      in case woken of
           None \<Rightarrow> (Pending, bucket, None)
         | Some wake \<Rightarrow>
             if \<not> canHedge bucket then (Pending, bucket, None)
             else (case onHedge init of
                     Some (Throws e) \<Rightarrow> (Rejected wake e, bucket, None)
                   | _ \<Rightarrow>
                       let hedgeHeaders = Headers_set hs ''X-Hedge-Attempt'' ''true''
                       in (then_handleResponse
                             (js_fetch wake (signal_aborts init (speculativeSignal init))
                                (speculative_exchange w))
                             Speculative,
                           consumeHedge bucket, Some hedgeHeaders)))"

text \<open>
  \<^verbatim>\<open>Promise.any\<close> of the two branches: the first to be fulfilled, the primary one
  when both are at the same time; an \<open>AggregateError\<close> once both are rejected; pending
  as long as none is fulfilled and one is pending.
\<close>

definition Promise_any :: "'a promise \<Rightarrow> 'a promise \<Rightarrow> 'a promise" where
  "Promise_any p s =
     (case p of
        Fulfilled tp a \<Rightarrow>
          (case s of
             Fulfilled ts b \<Rightarrow> if tp \<le> ts then Fulfilled tp a else Fulfilled ts b
           | _ \<Rightarrow> Fulfilled tp a)
      | Rejected tp e1 \<Rightarrow>
          (case s of
             Fulfilled ts b \<Rightarrow> Fulfilled ts b
           | Rejected ts e2 \<Rightarrow> Rejected (max tp ts) (AggregateError [e1, e2])
           | Pending \<Rightarrow> Pending)
      | Pending \<Rightarrow>
          (case s of
             Fulfilled ts b \<Rightarrow> Fulfilled ts b
           | _ \<Rightarrow> Pending))"

text \<open>The \<^verbatim>\<open>catch\<close> block: an \<open>AggregateError\<close> is replaced, any other error is thrown again.\<close>

definition rethrow :: "exn \<Rightarrow> exn" where
  "rethrow error = (case error of AggregateError errs \<Rightarrow> ServiceUnavailable | _ \<Rightarrow> error)"

definition call_hook :: "(nat \<Rightarrow> hook_outcome) option \<Rightarrow> nat \<Rightarrow> hook_outcome" where
  "call_hook h duration = (case h of None \<Rightarrow> Returns | Some f \<Rightarrow> f duration)"

text \<open>
  The \<^verbatim>\<open>try\<close> block after the \<^verbatim>\<open>await\<close>, with its \<^verbatim>\<open>catch\<close>: what
  \<^verbatim>\<open>fetch\<close> returns or throws once the awaited promise has settled, and the bucket
  it leaves. An exception of a hook is thrown inside the \<^verbatim>\<open>try\<close> block and
  reaches the \<^verbatim>\<open>catch\<close> block as any other error does.
\<close>

definition settle ::
  "IHedgeFetchOptions \<Rightarrow> HedgeBucket \<Rightarrow> (Response \<times> ResponseLabels) promise \<Rightarrow>
   Response promise \<times> HedgeBucket" where
  "settle init bucket fastestResponse =
     (case fastestResponse of
        Pending \<Rightarrow> (Pending, bucket)
      | Rejected t error \<Rightarrow> (Rejected t (rethrow error), bucket)
      | Fulfilled t rl \<Rightarrow>
          (if snd rl = Primary
           then let bucket' = (if ok (fst rl) then inc bucket else bucket)
                in (case call_hook (onPrimaryWin init) t of
                      Throws e \<Rightarrow> (Rejected t (rethrow e), bucket')
                    | Returns \<Rightarrow> (Fulfilled t (fst rl), bucket'))
           else let res = (fst rl)\<lparr>isHedged := True\<rparr>
                in (case call_hook (onSpeculativeWin init) t of
                      Throws e \<Rightarrow> (Rejected t (rethrow e), bucket)
                    | Returns \<Rightarrow> (Fulfilled t res, bucket))))"

text \<open>
  One call of \<^verbatim>\<open>HedgedContext.fetch\<close> on a bucket and a tracker: how the returned
  promise ends, the bucket and the tracker it leaves, and the attempts it has sent
  with their headers. The latency sample is recorded when the headers of the primary
  response arrive, which they do not when the speculative response has won before.
\<close>

record fetch_result =
  outcome :: "Response promise"
  bucket_after :: HedgeBucket
  tracker_after :: LatencyTracker
  dispatched :: "(ResponseLabels \<times> Headers) list"

text \<open>
  The promise \<^verbatim>\<open>fetch\<close> awaits: \<^verbatim>\<open>Promise.any\<close> of the two branches when
  hedging is allowed, the primary request alone otherwise; with it, the bucket and
  the hedge headers the speculative branch leaves.
\<close>

definition fastestResponse_of ::
  "HedgeBucket \<Rightarrow> LatencyTracker \<Rightarrow> world \<Rightarrow> IHedgeFetchOptions \<Rightarrow>
   (Response \<times> ResponseLabels) promise \<times> HedgeBucket \<times> Headers option" where
  "fastestResponse_of bucket tracker w init =
     (let hs = prepare_headers init (randomUUID w);
          waitToHedgeMs = nat (getWaitTime tracker)
      in if isSafeMethod (method_of init) \<or> forceHedge init
         then let sb = speculative_branch bucket init w hs waitToHedgeMs (primaryRequest init w)
              in (Promise_any (primaryRequest init w) (fst sb), snd sb)
         else (primaryRequest init w, bucket, None))"

text \<open>The body of \<^verbatim>\<open>fetch\<close> after the entry check of the caller's signal.\<close>

definition race ::
  "HedgeBucket \<Rightarrow> LatencyTracker \<Rightarrow> world \<Rightarrow> IHedgeFetchOptions \<Rightarrow> fetch_result" where
  "race bucket tracker w init =
     (let hs = prepare_headers init (randomUUID w);
          praw = js_fetch 0 (signal_aborts init (primarySignal init)) (primary_exchange w);
          fr = fastestResponse_of bucket tracker w init;
          st = settle init (fst (snd fr)) (fst fr);
          tracker' =
            (case praw of
               Fulfilled tp res \<Rightarrow>
                 (case fst fr of
                    Fulfilled ts rl \<Rightarrow>
                      if snd rl = Speculative \<and> ts < tp then tracker else add tracker (real tp)
                  | _ \<Rightarrow> add tracker (real tp))
             | _ \<Rightarrow> tracker)
      in \<lparr>outcome = fst st, bucket_after = snd st, tracker_after = tracker',
          dispatched = (Primary, hs) #
            (case snd (snd fr) of None \<Rightarrow> [] | Some hh \<Rightarrow> [(Speculative, hh)])\<rparr>)"

text \<open>\<^verbatim>\<open>if (userSignal && userSignal.aborted) throw userSignal.reason\<close>, then the race.\<close>

definition fetch ::
  "HedgeBucket \<Rightarrow> LatencyTracker \<Rightarrow> world \<Rightarrow> IHedgeFetchOptions \<Rightarrow> fetch_result" where
  "fetch bucket tracker w init =
     (case signal init of
        None \<Rightarrow> race bucket tracker w init
      | Some userSignal \<Rightarrow>
          if aborted userSignal
          then \<lparr>outcome = Rejected 0 (reason userSignal), bucket_after = bucket,
                tracker_after = tracker, dispatched = []\<rparr>
          else race bucket tracker w init)"

text \<open>The entry check lets the call through: no caller signal, or one that has not fired.\<close>

definition entry_check_passes :: "IHedgeFetchOptions \<Rightarrow> bool" where
  "entry_check_passes init = (case signal init of None \<Rightarrow> True | Some s \<Rightarrow> \<not> aborted s)"

text \<open>
  The options object \<^verbatim>\<open>{}\<close>: a GET with no header, no signal, no deadline and no
  hook. A world in which neither attempt is ever answered.
\<close>

definition plain_options :: IHedgeFetchOptions where
  "plain_options =
     \<lparr>req_method = None, headers = [], signal = None, timeoutMs = None, forceHedge = False,
      autoIdempotency = False, onHedge = None, onPrimaryWin = None, onSpeculativeWin = None\<rparr>"

definition silent_world :: world where
  "silent_world = \<lparr>primary_exchange = Stalls, speculative_exchange = Stalls, randomUUID = ''u-1''\<rparr>"

definition response_of :: "nat \<Rightarrow> Response" where
  "response_of code = \<lparr>status = code, body = [], isHedged = False\<rparr>"

subsection \<open>Calls made one after another\<close>

text \<open>
  The test of the clean-up code that rewards the bucket: the call got past the entry
  check, the awaited promise was fulfilled with the label of the primary branch, and
  the response is \<open>ok\<close>. Such a call is a confirmed-successful primary completion.
\<close>

definition primary_succeeded ::
  "HedgeBucket \<Rightarrow> LatencyTracker \<Rightarrow> world \<Rightarrow> IHedgeFetchOptions \<Rightarrow> bool" where
  "primary_succeeded bucket tracker w init =
     (entry_check_passes init \<and>
      (case fst (fastestResponse_of bucket tracker w init) of
         Fulfilled t rl \<Rightarrow> snd rl = Primary \<and> ok (fst rl)
       | _ \<Rightarrow> False))"

text \<open>
  A process makes its calls one after another on one bucket and one tracker, each
  call starting on what the call before has left: the results of the calls, and the
  number of confirmed-successful primary completions among them.
\<close>

fun fetch_all ::
  "HedgeBucket \<Rightarrow> LatencyTracker \<Rightarrow> (world \<times> IHedgeFetchOptions) list \<Rightarrow> fetch_result list" where
  "fetch_all bucket tracker [] = []"
| "fetch_all bucket tracker (c # cs) =
     fetch bucket tracker (fst c) (snd c) #
     fetch_all (bucket_after (fetch bucket tracker (fst c) (snd c)))
       (tracker_after (fetch bucket tracker (fst c) (snd c))) cs"

fun primary_successes ::
  "HedgeBucket \<Rightarrow> LatencyTracker \<Rightarrow> (world \<times> IHedgeFetchOptions) list \<Rightarrow> nat" where
  "primary_successes bucket tracker [] = 0"
| "primary_successes bucket tracker (c # cs) =
     (if primary_succeeded bucket tracker (fst c) (snd c) then 1 else 0) +
     primary_successes (bucket_after (fetch bucket tracker (fst c) (snd c)))
       (tracker_after (fetch bucket tracker (fst c) (snd c))) cs"

section \<open>Properties of the hedge budget\<close>

lemma inc_range: "0 \<le> tokens b \<Longrightarrow> tokens b \<le> 10 \<Longrightarrow> 0 \<le> tokens (inc b) \<and> tokens (inc b) \<le> 10"
  by (simp add: inc_def maxTokens_def gainPerRequest_def)

lemma consume_range: "canHedge b \<Longrightarrow> tokens b \<le> 10 \<Longrightarrow> 0 \<le> tokens (consumeHedge b) \<and> tokens (consumeHedge b) \<le> 10"
  by (simp add: canHedge_def consumeHedge_def hedgeCost_def)

lemma run_in_range:
  "checked_from chk b cs \<Longrightarrow> (chk \<Longrightarrow> canHedge b) \<Longrightarrow> 0 \<le> tokens b \<Longrightarrow> tokens b \<le> 10 \<Longrightarrow>
   0 \<le> tokens (run_calls b (take k cs)) \<and> tokens (run_calls b (take k cs)) \<le> 10"
proof (induction cs arbitrary: chk b k)
  case Nil
  then show ?case by simp
next
  case (Cons c cs)
  show ?case
  proof (cases k)
    case 0
    with Cons.prems show ?thesis by simp
  next
    case (Suc k')
    show ?thesis
    proof (cases c)
      case CanHedge
      with Cons.prems have "checked_from (canHedge b) b cs" by simp
      from Cons.IH [OF this _ Cons.prems(3,4), of k'] Suc CanHedge
      show ?thesis by simp
    next
      case ConsumeHedge
      with Cons.prems have can: "canHedge b" and rest: "checked_from False (consumeHedge b) cs"
        by simp_all
      from consume_range [OF can Cons.prems(4)]
      have "0 \<le> tokens (consumeHedge b)" "tokens (consumeHedge b) \<le> 10" by simp_all
      from Cons.IH [OF rest _ this, of k'] Suc ConsumeHedge
      show ?thesis by simp
    next
      case Inc
      with Cons.prems have rest: "checked_from False (inc b) cs" by simp
      from inc_range [OF Cons.prems(3,4)]
      have "0 \<le> tokens (inc b)" "tokens (inc b) \<le> 10" by simp_all
      from Cons.IH [OF rest _ this, of k'] Suc Inc
      show ?thesis by simp
    qed
  qed
qed

lemma tokens_funpow_inc:
  "tokens ((inc ^^ n) HedgeBucket_new) = min 10 (real n * 0.05)"
proof (induction n)
  case 0
  show ?case by (simp add: HedgeBucket_new_def)
next
  case (Suc n)
  then show ?case
    by (simp add: inc_def maxTokens_def gainPerRequest_def min_def algebra_simps)
qed


text \<open>
  Claim C8. Started on a bucket whose level is within \<open>[0, 10]\<close>, every call sequence that
  respects check-before-consume keeps the level within \<open>[0, 10]\<close> after each of its
  prefixes; \<open>inc\<close> adds 0.05 clamped at 10, \<open>consumeHedge\<close> subtracts 1, and \<open>canHedge\<close>
  is true iff the level is at least 1.
\<close>

theorem hedge_budget_stays_in_range:
  assumes "0 \<le> tokens b" and "tokens b \<le> 10" and "check_before_consume b cs"
  shows "(\<forall>k. 0 \<le> tokens (run_calls b (take k cs)) \<and> tokens (run_calls b (take k cs)) \<le> 10) \<and>
         tokens (inc b) = min 10 (tokens b + 0.05) \<and>
         tokens (consumeHedge b) = tokens b - 1 \<and>
         (canHedge b \<longleftrightarrow> 1 \<le> tokens b)"
  using assms run_in_range [of False b cs]
  by (simp add: check_before_consume_def inc_def consumeHedge_def canHedge_def maxTokens_def
      gainPerRequest_def hedgeCost_def)

lemma check_before_consume_example:
  "check_before_consume HedgeBucket_new (replicate 20 Inc @ [CanHedge, ConsumeHedge])"
  by (simp add: check_before_consume_def numeral_eq_Suc HedgeBucket_new_def inc_def canHedge_def
      maxTokens_def gainPerRequest_def hedgeCost_def)

theorem hedge_budget_stays_in_range_witness:
  "check_before_consume HedgeBucket_new (replicate 20 Inc @ [CanHedge, ConsumeHedge]) \<and>
   tokens (run_calls HedgeBucket_new (replicate 20 Inc @ [CanHedge, ConsumeHedge])) = 0 \<and>
   tokens (run_calls HedgeBucket_new (take 20 (replicate 20 Inc @ [CanHedge, ConsumeHedge]))) \<le> 10"
proof -
  have h0: "0 \<le> tokens HedgeBucket_new" "tokens HedgeBucket_new \<le> 10"
    by (simp_all add: HedgeBucket_new_def)
  have r: "tokens (run_calls HedgeBucket_new (replicate 20 Inc @ [CanHedge, ConsumeHedge])) = 0"
    by (simp add: numeral_eq_Suc HedgeBucket_new_def inc_def consumeHedge_def maxTokens_def
      gainPerRequest_def hedgeCost_def)
  show ?thesis
    using hedge_budget_stays_in_range [OF h0 check_before_consume_example] r
      check_before_consume_example
    by blast
qed


section \<open>Properties of the latency tracker\<close>

lemma rawP95_index_in_range: "0 < n \<Longrightarrow> rawP95_index n < n"
  unfolding rawP95_index_def by (simp add: nat_less_iff) linarith

lemma samples_updateSmoothedP95: "samples (updateSmoothedP95 t) = samples t"
  by (simp add: updateSmoothedP95_def Let_def)

lemma samples_add:
  "samples (add t ms) = (if length (samples t) \<ge> 100 then tl (samples t) else samples t) @ [ms]"
  by (simp add: add_def Let_def samples_updateSmoothedP95 maxSamples_def)

lemma add_all_snoc: "add_all t (xs @ [x]) = add (add_all t xs) x"
  by (simp add: add_all_def)

lemma samples_add_all:
  "samples (add_all LatencyTracker_new xs) = drop (length xs - 100) xs"
proof (induction xs rule: rev_induct)
  case Nil
  then show ?case by (simp add: add_all_def LatencyTracker_new_def)
next
  case (snoc x xs)
  have tl_drop_Suc: "tl (drop k ys) = drop (Suc k) ys" for k and ys :: "real list"
    by (simp add: drop_Suc tl_drop)
  show ?case
  proof (cases "length xs \<ge> 100")
    case True
    then have "Suc (length xs - 100) = Suc (length xs) - 100"
      by simp
    then have "tl (drop (length xs - 100) xs) = drop (Suc (length xs) - 100) xs"
      using tl_drop_Suc [of "length xs - 100" xs] by simp
    with True snoc show ?thesis
      by (simp add: add_all_snoc samples_add)
  next
    case False
    with snoc show ?thesis by (simp add: add_all_snoc samples_add)
  qed
qed

lemma length_samples_add_all:
  "length (samples (add_all LatencyTracker_new xs)) = min (length xs) 100"
  by (simp add: samples_add_all)

lemma currentP95_add:
  "currentP95 (add t ms) =
     (let n = length (samples (add t ms)); raw = sort (samples (add t ms)) ! rawP95_index n
      in if n < 5 then currentP95 t
         else if n < 20 then raw
         else currentP95 t * (1 - alpha) + raw * alpha)"
  by (simp add: add_def Let_def updateSmoothedP95_def calculateRawP95_def)


text \<open>
  Claim C7. For the \<open>add\<close> that brings the number of samples ever added to a fresh
  tracker to \<open>total\<close>: the window is the last 100 samples; below 5 the estimate is
  unchanged; from 5 to 19 it becomes the raw percentile, the sorted window read at
  \<open>max 0 (floor (n * 0.95) - 1)\<close>; from 20 on it becomes 0.8 times the previous
  estimate plus 0.2 times the raw percentile.
\<close>

theorem add_updates_estimate:
  "let t = add_all LatencyTracker_new xs;
       t' = add t x;
       total = Suc (length xs);
       window = samples t';
       n = length window;
       raw = sort window ! nat (max 0 (\<lfloor>real n * 0.95\<rfloor> - 1))
   in window = drop (total - 100) (xs @ [x]) \<and>
      (total < 5 \<longrightarrow> currentP95 t' = currentP95 t) \<and>
      (5 \<le> total \<and> total < 20 \<longrightarrow> currentP95 t' = raw) \<and>
      (20 \<le> total \<longrightarrow> currentP95 t' = 0.8 * currentP95 t + 0.2 * raw)"
proof -
  define t where "t = add_all LatencyTracker_new xs"
  define raw where "raw = sort (samples (add t x)) !
    nat (max 0 (\<lfloor>real (length (samples (add t x))) * 0.95\<rfloor> - 1))"
  have w: "samples (add t x) = drop (Suc (length xs) - 100) (xs @ [x])"
    using samples_add_all [of "xs @ [x]"] by (simp add: add_all_snoc t_def)
  have n: "length (samples (add t x)) = min (Suc (length xs)) 100"
    using length_samples_add_all [of "xs @ [x]"] by (simp add: add_all_snoc t_def)
  have c: "currentP95 (add t x) =
     (if length (samples (add t x)) < 5 then currentP95 t
      else if length (samples (add t x)) < 20 then raw
      else currentP95 t * (1 - alpha) + raw * alpha)"
    unfolding raw_def using currentP95_add [of t x]
    by (simp only: Let_def rawP95_index_def)
  have c1: "Suc (length xs) < 5 \<Longrightarrow> currentP95 (add t x) = currentP95 t"
    by (subst c) (simp add: n)
  have c2: "5 \<le> Suc (length xs) \<and> Suc (length xs) < 20 \<Longrightarrow> currentP95 (add t x) = raw"
    by (subst c) (simp add: n)
  have c3: "20 \<le> Suc (length xs) \<Longrightarrow> currentP95 (add t x) = 0.8 * currentP95 t + 0.2 * raw"
  proof -
    assume "20 \<le> Suc (length xs)"
    then have "\<not> length (samples (add t x)) < 5" "\<not> length (samples (add t x)) < 20"
      by (simp_all add: n)
    then show ?thesis
      by (subst c) (simp add: alpha_def)
  qed
  show ?thesis
    unfolding Let_def t_def [symmetric] raw_def [symmetric]
    using w c1 c2 c3 by blast
qed


text \<open>Five samples of 100 on a fresh tracker leave the estimate at 100.\<close>

theorem add_updates_estimate_witness:
  "currentP95 (add (add_all LatencyTracker_new [100, 100, 100, 100]) 100) = 100"
  using add_updates_estimate [of "[100, 100, 100, 100]" 100]
  by (simp add: Let_def)

text \<open>
  Claim C9. After any sequence of \<open>add\<close> calls \<open>getWaitTime\<close> is
  \<open>max 25 (round estimate)\<close>, hence at least 25. It is a function of the tracker alone and
  returns no new tracker: reading changes nothing. The floor is not stored: five samples
  of 10 leave the estimate at 10 while the wait time read is 25.
\<close>

theorem getWaitTime_floor:
  "getWaitTime (add_all LatencyTracker_new xs) =
     max 25 (round (currentP95 (add_all LatencyTracker_new xs))) \<and>
   25 \<le> getWaitTime (add_all LatencyTracker_new xs) \<and>
   currentP95 (add_all LatencyTracker_new [10, 10, 10, 10, 10]) = 10 \<and>
   getWaitTime (add_all LatencyTracker_new [10, 10, 10, 10, 10]) = 25"
proof -
  have "currentP95 (add_all LatencyTracker_new [10, 10, 10, 10, 10]) = 10"
    by (simp add: add_all_def add_def LatencyTracker_new_def updateSmoothedP95_def
        calculateRawP95_def rawP95_index_def Let_def maxSamples_def)
  then show ?thesis
    by (simp add: getWaitTime_def minFloor_def round_def)
qed

theorem getWaitTime_floor_witness:
  "getWaitTime (add_all LatencyTracker_new [100, 100, 100, 100, 100]) = 100"
proof -
  have "currentP95 (add_all LatencyTracker_new [100, 100, 100, 100, 100]) = 100"
    by (simp add: add_all_def add_def LatencyTracker_new_def updateSmoothedP95_def
        calculateRawP95_def rawP95_index_def Let_def maxSamples_def)
  then show ?thesis
    using getWaitTime_floor [of "[100, 100, 100, 100, 100]"]
    by (simp add: round_def)
qed

section \<open>Properties of the coordinator\<close>

lemmas coordinator_defs =
  fetch_def race_def fastestResponse_of_def primaryRequest_def speculative_branch_def settle_def
  Promise_any_def then_handleResponse_def js_fetch_def handleResponse_def ok_def rethrow_def
  call_hook_def signal_aborts_def source_fires_def primarySignal_def speculativeSignal_def
  isSafeMethod_def method_of_def toUpperCase_def toUpperCase_char_def aborted_def
  entry_check_passes_def

lemmas example_defs = plain_options_def silent_world_def response_of_def

lemmas bucket_defs = HedgeBucket_new_def canHedge_def consumeHedge_def inc_def hedgeCost_def
  maxTokens_def gainPerRequest_def

lemma wait_fresh: "nat (getWaitTime LatencyTracker_new) = 150"
  by (simp add: getWaitTime_def LatencyTracker_new_def minFloor_def)

lemma fetch_is_race:
  "entry_check_passes init \<Longrightarrow> fetch bucket tracker w init = race bucket tracker w init"
  by (cases "signal init") (simp_all add: fetch_def entry_check_passes_def)

lemma outcome_race:
  "outcome (race bucket tracker w init) =
     fst (settle init (fst (snd (fastestResponse_of bucket tracker w init)))
            (fst (fastestResponse_of bucket tracker w init)))"
  by (simp add: race_def Let_def)

lemma dispatched_race:
  "dispatched (race bucket tracker w init) =
     (Primary, prepare_headers init (randomUUID w)) #
     (case snd (snd (fastestResponse_of bucket tracker w init)) of
        None \<Rightarrow> [] | Some hh \<Rightarrow> [(Speculative, hh)])"
  by (simp add: race_def Let_def)

subsection \<open>Classification of a response\<close>

text \<open>
  Claim C4, as stated, fails on a 3xx status: 304 lies in \<open>[200, 400)\<close> and
  \<open>handleResponse\<close> throws the retryable error for it.
\<close>

theorem handleResponse_304_is_retryable:
  "200 \<le> status (response_of 304) \<and> status (response_of 304) < 400 \<and>
   handleResponse (response_of 304) Primary = Inl (RetryableHTTPError 304)"
  by (simp add: handleResponse_def ok_def response_of_def)

text \<open>
  Claim C4, amended. A response is accepted, and returned as it is with its label,
  exactly when its status is in \<open>[200, 300)\<close> or \<open>[400, 500)\<close>; it is a retryable failure
  exactly when its status is any other, in particular 500 or more. On a branch, a
  response the transport delivers is classified so, and a failure of the transport
  is a rejection of the branch.
\<close>

theorem handleResponse_classifies:
  "(handleResponse res label = Inr (res, label)) =
     ((200 \<le> status res \<and> status res < 300) \<or> (400 \<le> status res \<and> status res < 500)) \<and>
   (handleResponse res label = Inl (RetryableHTTPError (status res))) =
     (status res < 200 \<or> (300 \<le> status res \<and> status res < 400) \<or> 500 \<le> status res) \<and>
   then_handleResponse (js_fetch start None (Responds d res)) label =
     (if (200 \<le> status res \<and> status res < 300) \<or> (400 \<le> status res \<and> status res < 500)
      then Fulfilled (start + d) (res, label)
      else Rejected (start + d) (RetryableHTTPError (status res))) \<and>
   then_handleResponse (js_fetch start None (Fails d)) label = Rejected (start + d) NetworkError"
  by (auto simp add: handleResponse_def ok_def then_handleResponse_def js_fetch_def)

theorem handleResponse_classifies_witness:
  "handleResponse (response_of 200) Primary = Inr (response_of 200, Primary) \<and>
   handleResponse (response_of 404) Speculative = Inr (response_of 404, Speculative) \<and>
   handleResponse (response_of 503) Primary = Inl (RetryableHTTPError 503) \<and>
   then_handleResponse (js_fetch 0 None (Fails 7)) Primary = Rejected 7 NetworkError"
  using handleResponse_classifies [of "response_of 200" Primary 0 7]
    handleResponse_classifies [of "response_of 404" Speculative 0 7]
    handleResponse_classifies [of "response_of 503" Primary 0 7]
  by (simp add: response_of_def)

subsection \<open>The idempotency key\<close>

text \<open>
  Claim C5, as stated, fails on an unsafe request that is not a POST: a PUT with
  \<open>autoIdempotency\<close> set and no idempotency header gets no key.
\<close>

theorem put_gets_no_idempotency_key:
  "\<not> isSafeMethod (method_of (plain_options\<lparr>req_method := Some ''PUT'', autoIdempotency := True\<rparr>)) \<and>
   autoIdempotency (plain_options\<lparr>req_method := Some ''PUT'', autoIdempotency := True\<rparr>) \<and>
   \<not> Headers_has
       (Headers_new (headers (plain_options\<lparr>req_method := Some ''PUT'', autoIdempotency := True\<rparr>)))
       ''Idempotency-Key'' \<and>
   \<not> Headers_has
       (prepare_headers (plain_options\<lparr>req_method := Some ''PUT'', autoIdempotency := True\<rparr>) ''u-1'')
       ''Idempotency-Key''"
  by (simp add: coordinator_defs example_defs prepare_headers_def Headers_has_def Headers_new_def)

text \<open>
  Claim C5, amended. When the upper-cased request verb is POST, \<open>autoIdempotency\<close> is
  set and no idempotency header is present, the headers carry the generated token
  under \<open>Idempotency-Key\<close>; for any other verb the headers are those the caller gave.
  The prepared headers are the ones the primary attempt is sent with.
\<close>

theorem post_gets_idempotency_key:
  "(method_of init = ''POST'' \<and> autoIdempotency init \<and>
      \<not> Headers_has (Headers_new (headers init)) ''Idempotency-Key'' \<longrightarrow>
      Headers_get (prepare_headers init (randomUUID w)) ''Idempotency-Key'' = Some (randomUUID w)) \<and>
   (method_of init \<noteq> ''POST'' \<longrightarrow> prepare_headers init (randomUUID w) = Headers_new (headers init)) \<and>
   (entry_check_passes init \<longrightarrow>
      hd (dispatched (fetch bucket tracker w init)) = (Primary, prepare_headers init (randomUUID w)))"
  using dispatched_race [of bucket tracker w init] fetch_is_race [of init bucket tracker w]
  by (simp add: prepare_headers_def Headers_get_def Headers_set_def Let_def)

theorem post_gets_idempotency_key_witness:
  "Headers_get
     (prepare_headers (plain_options\<lparr>req_method := Some ''post'', autoIdempotency := True\<rparr>)
        (randomUUID silent_world))
     ''Idempotency-Key'' = Some ''u-1'' \<and>
   prepare_headers (plain_options\<lparr>req_method := Some ''PUT'', autoIdempotency := True\<rparr>)
     (randomUUID silent_world) = Map.empty \<and>
   fst (hd (dispatched (fetch HedgeBucket_new LatencyTracker_new silent_world
     (plain_options\<lparr>req_method := Some ''post'', autoIdempotency := True\<rparr>)))) = Primary"
proof -
  let ?post = "plain_options\<lparr>req_method := Some ''post'', autoIdempotency := True\<rparr>"
  let ?put = "plain_options\<lparr>req_method := Some ''PUT'', autoIdempotency := True\<rparr>"
  have m: "method_of ?post = ''POST''" "method_of ?put \<noteq> ''POST''"
    by (simp_all add: method_of_def toUpperCase_def toUpperCase_char_def plain_options_def)
  have a: "autoIdempotency ?post"
    by simp
  have h: "\<not> Headers_has (Headers_new (headers ?post)) ''Idempotency-Key''"
    "Headers_new (headers ?put) = Map.empty"
    by (simp_all add: Headers_has_def Headers_new_def plain_options_def)
  have u: "randomUUID silent_world = ''u-1''"
    by (simp add: silent_world_def)
  have e: "entry_check_passes ?post"
    by (simp add: entry_check_passes_def plain_options_def)
  show ?thesis
    using post_gets_idempotency_key [of ?post silent_world HedgeBucket_new LatencyTracker_new]
      post_gets_idempotency_key [of ?put silent_world] m a h u e
    by simp
qed

subsection \<open>The cancellation signals of the two branches\<close>

text \<open>
  Claim C2. With a caller signal, each branch signal follows the caller's signal, the
  branch's own controller and the timeout controller. With no caller signal, each
  branch signal is its controller's alone: no firing of the deadline reaches a branch.
\<close>

theorem branch_signals_composition:
  "(signal init \<noteq> None \<longrightarrow>
      primarySignal init = [UserSignal, PrimaryController, GlobalTimeoutController] \<and>
      speculativeSignal init = [UserSignal, SpeculativeController, GlobalTimeoutController]) \<and>
   (signal init = None \<longrightarrow>
      primarySignal init = [PrimaryController] \<and>
      speculativeSignal init = [SpeculativeController] \<and>
      signal_aborts init (primarySignal init) = None \<and>
      signal_aborts init (speculativeSignal init) = None)"
  by (simp add: primarySignal_def speculativeSignal_def signal_aborts_def source_fires_def)

text \<open>
  A call with \<open>timeoutMs = 5000\<close> and no signal, on a transport that never answers: the
  timeout controller fires at 5000, neither branch signal follows it, and the call
  never settles.
\<close>

theorem branch_signals_composition_witness:
  "source_fires (plain_options\<lparr>timeoutMs := Some 5000\<rparr>) GlobalTimeoutController
     = Some (5000, TimedOutAfter 5000) \<and>
   GlobalTimeoutController \<notin> set (primarySignal (plain_options\<lparr>timeoutMs := Some 5000\<rparr>)) \<and>
   GlobalTimeoutController \<notin> set (speculativeSignal (plain_options\<lparr>timeoutMs := Some 5000\<rparr>)) \<and>
   signal_aborts (plain_options\<lparr>timeoutMs := Some 5000\<rparr>)
     (primarySignal (plain_options\<lparr>timeoutMs := Some 5000\<rparr>)) = None \<and>
   outcome (fetch \<lparr>tokens = 1\<rparr> LatencyTracker_new silent_world
     (plain_options\<lparr>timeoutMs := Some 5000\<rparr>)) = Pending \<and>
   primarySignal (plain_options\<lparr>signal := Some \<lparr>abortedAt = None, reason = Thrown ''stop''\<rparr>\<rparr>)
     = [UserSignal, PrimaryController, GlobalTimeoutController]"
proof -
  let ?i = "plain_options\<lparr>timeoutMs := Some 5000\<rparr>"
  let ?j = "plain_options\<lparr>signal := Some \<lparr>abortedAt = None, reason = Thrown ''stop''\<rparr>\<rparr>"
  have n: "signal ?i = None" "signal ?j \<noteq> None"
    by (simp_all add: plain_options_def)
  have f: "source_fires ?i GlobalTimeoutController = Some (5000, TimedOutAfter 5000)"
    by (simp add: source_fires_def plain_options_def)
  have p: "outcome (fetch \<lparr>tokens = 1\<rparr> LatencyTracker_new silent_world ?i) = Pending"
    by (simp add: coordinator_defs example_defs bucket_defs wait_fresh)
  from branch_signals_composition [of ?i] n(1)
  have a: "primarySignal ?i = [PrimaryController]" "speculativeSignal ?i = [SpeculativeController]"
    "signal_aborts ?i (primarySignal ?i) = None"
    by blast+
  from branch_signals_composition [of ?j] n(2)
  have b: "primarySignal ?j = [UserSignal, PrimaryController, GlobalTimeoutController]"
    by blast
  have "GlobalTimeoutController \<notin> set (primarySignal ?i)"
    "GlobalTimeoutController \<notin> set (speculativeSignal ?i)"
    by (simp_all only: a list.set insert_iff empty_iff abort_source.distinct simp_thms)
  with a(3) b f p show ?thesis
    by blast
qed

subsection \<open>A speculative branch without budget\<close>

lemma speculative_branch_without_budget:
  "\<not> canHedge bucket \<Longrightarrow>
   speculative_branch bucket init w hs waitToHedgeMs p = (Pending, bucket, None)"
  by (simp add: speculative_branch_def Let_def split: promise.split option.split)

lemma primary_exchange_failed:
  assumes "signal init = None"
    and "primary_exchange w = Fails d \<or> (primary_exchange w = Responds d res \<and> 500 \<le> status res)"
  shows "\<exists>e. primaryRequest init w = Rejected d e"
  using assms
  by (auto simp add: primaryRequest_def then_handleResponse_def js_fetch_def signal_aborts_def
      primarySignal_def source_fires_def handleResponse_def ok_def)

lemma withdrawn_speculative_primary_accepted:
  assumes "entry_check_passes init"
    and "isSafeMethod (method_of init) \<or> forceHedge init"
    and "\<not> canHedge bucket"
    and "primaryRequest init w = Fulfilled t (res, Primary)"
    and "call_hook (onPrimaryWin init) t = Returns"
  shows "outcome (fetch bucket tracker w init) = Fulfilled t res \<and>
         map fst (dispatched (fetch bucket tracker w init)) = [Primary]"
proof -
  have fr: "fastestResponse_of bucket tracker w init = (Fulfilled t (res, Primary), bucket, None)"
    using assms(2,3,4)
    by (simp add: fastestResponse_of_def Let_def speculative_branch_without_budget
        Promise_any_def)
  show ?thesis
    using assms(1,5) by (simp add: fetch_is_race race_def Let_def fr settle_def)
qed

text \<open>
  Claim C1. When hedging is allowed and the bucket refuses at wake-up, the speculative
  branch is a promise that never settles and no hedge is sent. When the primary
  request then ends in failure, \<open>Promise.any\<close> keeps waiting for that promise: the call
  never settles, whereas the claim has it settle with the primary's failure.
\<close>

theorem withdrawn_speculative_hangs_race:
  assumes "entry_check_passes init"
    and "isSafeMethod (method_of init) \<or> forceHedge init"
    and "\<not> canHedge bucket"
    and "primaryRequest init w = Rejected t e"
  shows "outcome (fetch bucket tracker w init) = Pending \<and>
         map fst (dispatched (fetch bucket tracker w init)) = [Primary] \<and>
         bucket_after (fetch bucket tracker w init) = bucket"
proof -
  have fr: "fastestResponse_of bucket tracker w init = (Pending, bucket, None)"
    using assms(2,3,4)
    by (simp add: fastestResponse_of_def Let_def speculative_branch_without_budget
        Promise_any_def)
  show ?thesis
    using assms(1) by (simp add: fetch_is_race race_def Let_def fr settle_def)
qed

text \<open>
  A GET on an empty bucket whose primary attempt is answered 503 after 5 ms never
  settles.
\<close>

theorem withdrawn_speculative_hangs_race_witness:
  "outcome (fetch HedgeBucket_new LatencyTracker_new
     \<lparr>primary_exchange = Responds 5 (response_of 503),
      speculative_exchange = Responds 10 (response_of 200), randomUUID = ''u-1''\<rparr>
     plain_options) = Pending"
proof -
  let ?w = "\<lparr>primary_exchange = Responds 5 (response_of 503),
      speculative_exchange = Responds 10 (response_of 200), randomUUID = ''u-1''\<rparr>"
  have h: "entry_check_passes plain_options"
    "isSafeMethod (method_of plain_options) \<or> forceHedge plain_options"
    "\<not> canHedge HedgeBucket_new"
    by (simp_all add: coordinator_defs example_defs bucket_defs)
  have p: "primaryRequest plain_options ?w = Rejected 5 (RetryableHTTPError 503)"
    by (simp add: coordinator_defs example_defs)
  from withdrawn_speculative_hangs_race [OF h p, of LatencyTracker_new]
  show ?thesis by blast
qed

subsection \<open>Deadline and caller cancellation\<close>

text \<open>
  Claim C3. On a GET with a token in the bucket and a transport that never answers:
  a caller cancellation at 50 ms, and a deadline of 100 ms, each reject both branches,
  and the call fails with the aggregated Service Unavailable error, not with the
  caller's reason or the timeout reason; on an empty bucket the cancelled call never
  settles. On a POST without \<open>forceHedge\<close> (primary only) the same cancellation and the
  same deadline fail the call with the caller's reason and with the timeout reason,
  and a signal that has fired at entry fails it with the caller's reason.
\<close>

theorem cancellation_reported_as_service_unavailable:
  "outcome (fetch \<lparr>tokens = 1\<rparr> LatencyTracker_new silent_world
     (plain_options\<lparr>signal := Some \<lparr>abortedAt = Some 50, reason = Thrown ''stop''\<rparr>\<rparr>))
     = Rejected 50 ServiceUnavailable \<and>
   outcome (fetch \<lparr>tokens = 1\<rparr> LatencyTracker_new silent_world
     (plain_options\<lparr>signal := Some \<lparr>abortedAt = None, reason = Thrown ''stop''\<rparr>,
        timeoutMs := Some 100\<rparr>))
     = Rejected 100 ServiceUnavailable \<and>
   outcome (fetch HedgeBucket_new LatencyTracker_new silent_world
     (plain_options\<lparr>signal := Some \<lparr>abortedAt = Some 50, reason = Thrown ''stop''\<rparr>\<rparr>))
     = Pending \<and>
   outcome (fetch \<lparr>tokens = 1\<rparr> LatencyTracker_new silent_world
     (plain_options\<lparr>req_method := Some ''POST'',
        signal := Some \<lparr>abortedAt = Some 50, reason = Thrown ''stop''\<rparr>\<rparr>))
     = Rejected 50 (Thrown ''stop'') \<and>
   outcome (fetch \<lparr>tokens = 1\<rparr> LatencyTracker_new silent_world
     (plain_options\<lparr>req_method := Some ''POST'',
        signal := Some \<lparr>abortedAt = None, reason = Thrown ''stop''\<rparr>, timeoutMs := Some 100\<rparr>))
     = Rejected 100 (TimedOutAfter 100) \<and>
   outcome (fetch \<lparr>tokens = 1\<rparr> LatencyTracker_new silent_world
     (plain_options\<lparr>signal := Some \<lparr>abortedAt = Some 0, reason = Thrown ''stop''\<rparr>\<rparr>))
     = Rejected 0 (Thrown ''stop'')"
  by (simp add: coordinator_defs example_defs bucket_defs wait_fresh)

subsection \<open>Exceptions of the hooks\<close>

text \<open>
  Claim C6, as stated, fails: a primary response of status 200 wins after 10 ms, and
  the call returns it when \<open>onPrimaryWin\<close> returns but is rejected with the hook's
  exception when \<open>onPrimaryWin\<close> throws.
\<close>

theorem throwing_onPrimaryWin_fails_race:
  "outcome (fetch \<lparr>tokens = 1\<rparr> LatencyTracker_new
     \<lparr>primary_exchange = Responds 10 (response_of 200), speculative_exchange = Stalls,
      randomUUID = ''u-1''\<rparr>
     (plain_options\<lparr>onPrimaryWin := Some (\<lambda>d. Throws (Thrown ''boom''))\<rparr>))
     = Rejected 10 (Thrown ''boom'') \<and>
   outcome (fetch \<lparr>tokens = 1\<rparr> LatencyTracker_new
     \<lparr>primary_exchange = Responds 10 (response_of 200), speculative_exchange = Stalls,
      randomUUID = ''u-1''\<rparr>
     (plain_options\<lparr>onPrimaryWin := Some (\<lambda>d. Returns)\<rparr>))
     = Fulfilled 10 (response_of 200)"
  by (simp add: coordinator_defs example_defs bucket_defs wait_fresh)

lemma settle_primary_throws:
  "call_hook (onPrimaryWin init) t = Throws e \<Longrightarrow>
   fst (settle init bucket (Fulfilled t (res, Primary))) = Rejected t (rethrow e)"
  by (simp add: settle_def Let_def)

lemma settle_speculative_throws:
  "call_hook (onSpeculativeWin init) t = Throws e \<Longrightarrow>
   fst (settle init bucket (Fulfilled t (res, Speculative))) = Rejected t (rethrow e)"
  by (simp add: settle_def Let_def)

lemma speculative_branch_onHedge_throws:
  assumes "onHedge init = Some (Throws e)"
  shows "snd (speculative_branch bucket init w hs wt p) = (bucket, None) \<and>
         (\<forall>t v. fst (speculative_branch bucket init w hs wt p) \<noteq> Fulfilled t v)"
  using assms by (simp add: speculative_branch_def Let_def split: promise.split option.split)

lemma speculative_branch_onHedge_rejected:
  assumes "onHedge init = Some (Throws e)"
    and "canHedge bucket"
    and "\<forall>tp v. p = Fulfilled tp v \<longrightarrow> wt < tp"
  shows "speculative_branch bucket init w hs wt p =
           (Rejected (case p of Rejected tp e' \<Rightarrow> min wt tp | _ \<Rightarrow> wt) e, bucket, None)"
  using assms by (cases p) (simp_all add: speculative_branch_def Let_def)

text \<open>
  Claim C6, amended. No exception of a hook is caught. When the awaited promise is
  fulfilled by the primary branch and \<open>onPrimaryWin\<close> throws, or by the speculative
  branch and \<open>onSpeculativeWin\<close> throws, the call is rejected at that time with what the
  \<^verbatim>\<open>catch\<close> block makes of the exception (the exception itself unless it is an
  \<open>AggregateError\<close>). When \<open>onHedge\<close> throws, the speculative branch consumes no token,
  sends no hedge and is never fulfilled; and when its callback runs (the primary
  request was not accepted by the time of the timer) on a bucket that allows the
  hedge, the branch is rejected with that exception at its wake-up time: the time of
  the timer, or of the primary rejection when that is earlier.
\<close>

theorem hook_exception_is_not_caught:
  "(entry_check_passes init \<and>
      fst (fastestResponse_of bucket tracker w init) = Fulfilled t (res, Primary) \<and>
      onPrimaryWin init = Some f \<and> f t = Throws e \<longrightarrow>
      outcome (fetch bucket tracker w init) = Rejected t (rethrow e)) \<and>
   (entry_check_passes init \<and>
      fst (fastestResponse_of bucket tracker w init) = Fulfilled t (res, Speculative) \<and>
      onSpeculativeWin init = Some g \<and> g t = Throws e \<longrightarrow>
      outcome (fetch bucket tracker w init) = Rejected t (rethrow e)) \<and>
   (onHedge init = Some (Throws e) \<longrightarrow>
      snd (speculative_branch bucket init w hs wt p) = (bucket, None) \<and>
      (\<forall>t' v. fst (speculative_branch bucket init w hs wt p) \<noteq> Fulfilled t' v)) \<and>
   (onHedge init = Some (Throws e) \<and> canHedge bucket \<and>
      (\<forall>tp v. p = Fulfilled tp v \<longrightarrow> wt < tp) \<longrightarrow>
      speculative_branch bucket init w hs wt p =
        (Rejected (case p of Rejected tp e' \<Rightarrow> min wt tp | _ \<Rightarrow> wt) e, bucket, None))"
proof (intro conjI impI)
  assume a: "entry_check_passes init \<and>
      fst (fastestResponse_of bucket tracker w init) = Fulfilled t (res, Primary) \<and>
      onPrimaryWin init = Some f \<and> f t = Throws e"
  then have "call_hook (onPrimaryWin init) t = Throws e" by (simp add: call_hook_def)
  from settle_primary_throws [OF this] a
  show "outcome (fetch bucket tracker w init) = Rejected t (rethrow e)"
    by (simp add: fetch_is_race outcome_race)
next
  assume a: "entry_check_passes init \<and>
      fst (fastestResponse_of bucket tracker w init) = Fulfilled t (res, Speculative) \<and>
      onSpeculativeWin init = Some g \<and> g t = Throws e"
  then have "call_hook (onSpeculativeWin init) t = Throws e" by (simp add: call_hook_def)
  from settle_speculative_throws [OF this] a
  show "outcome (fetch bucket tracker w init) = Rejected t (rethrow e)"
    by (simp add: fetch_is_race outcome_race)
next
  assume "onHedge init = Some (Throws e)"
  from speculative_branch_onHedge_throws [OF this]
  show "snd (speculative_branch bucket init w hs wt p) = (bucket, None)" by blast
next
  assume "onHedge init = Some (Throws e)"
  from speculative_branch_onHedge_throws [OF this]
  show "\<forall>t' v. fst (speculative_branch bucket init w hs wt p) \<noteq> Fulfilled t' v" by blast
next
  assume a: "onHedge init = Some (Throws e) \<and> canHedge bucket \<and>
      (\<forall>tp v. p = Fulfilled tp v \<longrightarrow> wt < tp)"
  then have "onHedge init = Some (Throws e)" "canHedge bucket"
    "\<forall>tp v. p = Fulfilled tp v \<longrightarrow> wt < tp"
    by blast+
  from speculative_branch_onHedge_rejected [OF this]
  show "speculative_branch bucket init w hs wt p =
        (Rejected (case p of Rejected tp e' \<Rightarrow> min wt tp | _ \<Rightarrow> wt) e, bucket, None)" .
qed

theorem hook_exception_is_not_caught_witness:
  "outcome (fetch \<lparr>tokens = 1\<rparr> LatencyTracker_new
     \<lparr>primary_exchange = Responds 10 (response_of 200), speculative_exchange = Stalls,
      randomUUID = ''u-1''\<rparr>
     (plain_options\<lparr>onPrimaryWin := Some (\<lambda>d. Throws (Thrown ''boom''))\<rparr>))
     = Rejected 10 (Thrown ''boom'') \<and>
   outcome (fetch \<lparr>tokens = 1\<rparr> LatencyTracker_new
     \<lparr>primary_exchange = Stalls, speculative_exchange = Responds 10 (response_of 200),
      randomUUID = ''u-1''\<rparr>
     (plain_options\<lparr>onSpeculativeWin := Some (\<lambda>d. Throws (Thrown ''boom''))\<rparr>))
     = Rejected 160 (Thrown ''boom'') \<and>
   speculative_branch \<lparr>tokens = 1\<rparr> (plain_options\<lparr>onHedge := Some (Throws (Thrown ''boom''))\<rparr>)
     silent_world Map.empty 150 Pending = (Rejected 150 (Thrown ''boom''), \<lparr>tokens = 1\<rparr>, None) \<and>
   speculative_branch \<lparr>tokens = 1\<rparr> (plain_options\<lparr>onHedge := Some (Throws (Thrown ''boom''))\<rparr>)
     silent_world Map.empty 150 (Rejected 5 NetworkError)
     = (Rejected 5 (Thrown ''boom''), \<lparr>tokens = 1\<rparr>, None)"
proof -
  let ?w1 = "\<lparr>primary_exchange = Responds 10 (response_of 200), speculative_exchange = Stalls,
      randomUUID = ''u-1''\<rparr>"
  let ?i1 = "plain_options\<lparr>onPrimaryWin := Some (\<lambda>d. Throws (Thrown ''boom''))\<rparr>"
  let ?w2 = "\<lparr>primary_exchange = Stalls, speculative_exchange = Responds 10 (response_of 200),
      randomUUID = ''u-1''\<rparr>"
  let ?i2 = "plain_options\<lparr>onSpeculativeWin := Some (\<lambda>d. Throws (Thrown ''boom''))\<rparr>"
  let ?i3 = "plain_options\<lparr>onHedge := Some (Throws (Thrown ''boom''))\<rparr>"
  have e: "entry_check_passes ?i1" "entry_check_passes ?i2"
    by (simp_all add: entry_check_passes_def plain_options_def)
  have f1: "fst (fastestResponse_of \<lparr>tokens = 1\<rparr> LatencyTracker_new ?w1 ?i1)
      = Fulfilled 10 (response_of 200, Primary)"
    by (simp add: coordinator_defs example_defs bucket_defs wait_fresh)
  have h1: "onPrimaryWin ?i1 = Some (\<lambda>d. Throws (Thrown ''boom''))" by simp
  have f2: "fst (fastestResponse_of \<lparr>tokens = 1\<rparr> LatencyTracker_new ?w2 ?i2)
      = Fulfilled 160 (response_of 200, Speculative)"
    by (simp add: coordinator_defs example_defs bucket_defs wait_fresh)
  have h2: "onSpeculativeWin ?i2 = Some (\<lambda>d. Throws (Thrown ''boom''))" by simp
  have h3: "onHedge ?i3 = Some (Throws (Thrown ''boom''))" by simp
  have can: "canHedge \<lparr>tokens = 1\<rparr>" by (simp add: bucket_defs)
  have r: "rethrow (Thrown ''boom'') = Thrown ''boom''" by (simp add: rethrow_def)
  from hook_exception_is_not_caught
    [where bucket = "\<lparr>tokens = 1\<rparr>" and tracker = LatencyTracker_new and w = ?w1
      and init = ?i1 and t = 10 and res = "response_of 200"
      and f = "\<lambda>d. Throws (Thrown ''boom'')" and e = "Thrown ''boom''"]
    e f1 h1 r
  have c1: "outcome (fetch \<lparr>tokens = 1\<rparr> LatencyTracker_new ?w1 ?i1) = Rejected 10 (Thrown ''boom'')"
    by simp
  from hook_exception_is_not_caught
    [where bucket = "\<lparr>tokens = 1\<rparr>" and tracker = LatencyTracker_new and w = ?w2
      and init = ?i2 and t = 160 and res = "response_of 200"
      and g = "\<lambda>d. Throws (Thrown ''boom'')" and e = "Thrown ''boom''"]
    e f2 h2 r
  have c2: "outcome (fetch \<lparr>tokens = 1\<rparr> LatencyTracker_new ?w2 ?i2) = Rejected 160 (Thrown ''boom'')"
    by simp
  from hook_exception_is_not_caught
    [where bucket = "\<lparr>tokens = 1\<rparr>" and w = silent_world and init = ?i3
      and e = "Thrown ''boom''" and hs = Map.empty and wt = 150 and p = Pending]
    h3 can
  have c3: "speculative_branch \<lparr>tokens = 1\<rparr> ?i3 silent_world Map.empty 150 Pending
      = (Rejected 150 (Thrown ''boom''), \<lparr>tokens = 1\<rparr>, None)"
    by simp
  from hook_exception_is_not_caught
    [where bucket = "\<lparr>tokens = 1\<rparr>" and w = silent_world and init = ?i3
      and e = "Thrown ''boom''" and hs = Map.empty and wt = 150 and p = "Rejected 5 NetworkError"]
    h3 can
  have c4: "speculative_branch \<lparr>tokens = 1\<rparr> ?i3 silent_world Map.empty 150 (Rejected 5 NetworkError)
      = (Rejected 5 (Thrown ''boom''), \<lparr>tokens = 1\<rparr>, None)"
    by simp
  from c1 c2 c3 c4 show ?thesis
    by blast
qed

subsection \<open>A fresh bucket\<close>

lemma no_budget_no_hedge:
  assumes "\<not> canHedge bucket"
  shows "Speculative \<notin> fst ` set (dispatched (fetch bucket tracker w init))"
proof -
  have "snd (snd (fastestResponse_of bucket tracker w init)) = None"
    using assms by (simp add: fastestResponse_of_def Let_def speculative_branch_without_budget)
  then show ?thesis
    by (simp add: fetch_def race_def Let_def split: option.split)
qed

lemma snd_settle:
  "snd (settle init bucket p) =
     (if (case p of Fulfilled t rl \<Rightarrow> snd rl = Primary \<and> ok (fst rl) | _ \<Rightarrow> False)
      then inc bucket else bucket)"
  by (cases p) (simp_all add: settle_def Let_def split: hook_outcome.split)

lemma bucket_after_without_budget:
  assumes "\<not> canHedge bucket"
  shows "bucket_after (fetch bucket tracker w init) =
           (if primary_succeeded bucket tracker w init then inc bucket else bucket)"
proof (cases "entry_check_passes init")
  case True
  have "fst (snd (fastestResponse_of bucket tracker w init)) = bucket"
    using assms by (simp add: fastestResponse_of_def Let_def speculative_branch_without_budget)
  with True show ?thesis
    by (simp add: fetch_is_race race_def Let_def snd_settle primary_succeeded_def)
next
  case False
  then show ?thesis
    by (cases "signal init") (simp_all add: fetch_def entry_check_passes_def primary_succeeded_def)
qed

lemma canHedge_funpow_inc: "canHedge ((inc ^^ n) HedgeBucket_new) \<longleftrightarrow> 20 \<le> n"
proof -
  have "(1 \<le> min 10 (real n * 0.05)) = (20 \<le> n)"
    by (simp add: min_def)
  then show ?thesis
    by (simp add: canHedge_def hedgeCost_def tokens_funpow_inc)
qed

lemma no_hedge_before_twenty_successes:
  assumes "n + primary_successes ((inc ^^ n) HedgeBucket_new) tracker cs < 20"
  shows "\<forall>r \<in> set (fetch_all ((inc ^^ n) HedgeBucket_new) tracker (cs @ [c])).
           Speculative \<notin> fst ` set (dispatched r)"
  using assms
proof (induction cs arbitrary: n tracker)
  case Nil
  then have "\<not> canHedge ((inc ^^ n) HedgeBucket_new)"
    by (simp add: canHedge_funpow_inc)
  then show ?case
    using no_budget_no_hedge by simp
next
  case (Cons a cs)
  let ?b = "(inc ^^ n) HedgeBucket_new"
  let ?r = "fetch ?b tracker (fst a) (snd a)"
  from Cons.prems have n: "n < 20" by simp
  then have nb: "\<not> canHedge ?b"
    by (simp add: canHedge_funpow_inc)
  have first: "Speculative \<notin> fst ` set (dispatched ?r)"
    using no_budget_no_hedge [OF nb] .
  show ?case
  proof (cases "primary_succeeded ?b tracker (fst a) (snd a)")
    case True
    then have b': "bucket_after ?r = (inc ^^ Suc n) HedgeBucket_new"
      using bucket_after_without_budget [OF nb, of tracker "fst a" "snd a"] by simp
    from Cons.prems True
    have "Suc n + primary_successes ((inc ^^ Suc n) HedgeBucket_new) (tracker_after ?r) cs < 20"
      by (simp add: b')
    from Cons.IH [OF this] first show ?thesis
      by (simp add: b')
  next
    case False
    then have b': "bucket_after ?r = ?b"
      using bucket_after_without_budget [OF nb, of tracker "fst a" "snd a"] by simp
    from Cons.prems False
    have "n + primary_successes ?b (tracker_after ?r) cs < 20"
      by (simp add: b')
    from Cons.IH [OF this] first show ?thesis
      by (simp add: b')
  qed
qed

text \<open>
  Claim C10. A fresh bucket holds 0 tokens and refuses to hedge; after \<open>n\<close> calls of
  \<open>inc\<close> with no \<open>consumeHedge\<close> between them it allows a hedge iff \<open>n\<close> is at least 20,
  and on a bucket with fewer than 20 such calls no call of \<open>fetch\<close> sends a speculative
  attempt. A call on a bucket that refuses to hedge leaves the bucket with exactly one
  \<open>inc\<close> more when it is a confirmed-successful primary completion, and unchanged
  otherwise. Hence, for calls made one after another on a fresh bucket: as long as
  fewer than 20 of the calls made so far are confirmed-successful primary
  completions, none of them, nor the call that follows them, sends a speculative
  attempt.
\<close>

theorem fresh_bucket_needs_twenty_incs:
  "tokens HedgeBucket_new = 0 \<and> \<not> canHedge HedgeBucket_new \<and>
   (canHedge ((inc ^^ n) HedgeBucket_new) \<longleftrightarrow> 20 \<le> n) \<and>
   (n < 20 \<longrightarrow>
      Speculative \<notin> fst ` set (dispatched (fetch ((inc ^^ n) HedgeBucket_new) tracker w init))) \<and>
   (\<not> canHedge bucket \<longrightarrow>
      bucket_after (fetch bucket tracker w init) =
        (if primary_succeeded bucket tracker w init then inc bucket else bucket)) \<and>
   (primary_successes HedgeBucket_new tracker cs < 20 \<longrightarrow>
      (\<forall>r \<in> set (fetch_all HedgeBucket_new tracker (cs @ [c])).
         Speculative \<notin> fst ` set (dispatched r)))"
proof -
  have c: "canHedge ((inc ^^ n) HedgeBucket_new) \<longleftrightarrow> 20 \<le> n"
    by (rule canHedge_funpow_inc)
  moreover have "tokens HedgeBucket_new = 0" "\<not> canHedge HedgeBucket_new"
    by (simp_all add: HedgeBucket_new_def canHedge_def hedgeCost_def)
  moreover have "n < 20 \<longrightarrow>
      Speculative \<notin> fst ` set (dispatched (fetch ((inc ^^ n) HedgeBucket_new) tracker w init))"
    using c no_budget_no_hedge [of "(inc ^^ n) HedgeBucket_new" tracker w init] by simp
  moreover have "\<not> canHedge bucket \<longrightarrow>
      bucket_after (fetch bucket tracker w init) =
        (if primary_succeeded bucket tracker w init then inc bucket else bucket)"
    using bucket_after_without_budget [of bucket tracker w init] by blast
  moreover have "primary_successes HedgeBucket_new tracker cs < 20 \<longrightarrow>
      (\<forall>r \<in> set (fetch_all HedgeBucket_new tracker (cs @ [c])).
         Speculative \<notin> fst ` set (dispatched r))"
    using no_hedge_before_twenty_successes [of 0 tracker cs c] by simp
  ultimately show ?thesis by blast
qed

theorem fresh_bucket_needs_twenty_incs_witness:
  "\<not> canHedge ((inc ^^ 19) HedgeBucket_new) \<and> canHedge ((inc ^^ 20) HedgeBucket_new) \<and>
   Speculative \<notin> fst ` set (dispatched (fetch ((inc ^^ 19) HedgeBucket_new) LatencyTracker_new
      silent_world plain_options)) \<and>
   primary_successes HedgeBucket_new LatencyTracker_new
     [(\<lparr>primary_exchange = Responds 10 (response_of 200), speculative_exchange = Stalls,
        randomUUID = ''u-1''\<rparr>, plain_options)] = 1 \<and>
   bucket_after (fetch HedgeBucket_new LatencyTracker_new
     \<lparr>primary_exchange = Responds 10 (response_of 200), speculative_exchange = Stalls,
      randomUUID = ''u-1''\<rparr> plain_options) = inc HedgeBucket_new \<and>
   Speculative \<notin> fst ` set (dispatched (fetch (inc HedgeBucket_new)
     (tracker_after (fetch HedgeBucket_new LatencyTracker_new
        \<lparr>primary_exchange = Responds 10 (response_of 200), speculative_exchange = Stalls,
         randomUUID = ''u-1''\<rparr> plain_options))
     silent_world plain_options))"
proof -
  let ?w = "\<lparr>primary_exchange = Responds 10 (response_of 200), speculative_exchange = Stalls,
      randomUUID = ''u-1''\<rparr>"
  have s: "primary_succeeded HedgeBucket_new LatencyTracker_new ?w plain_options"
    by (simp add: primary_succeeded_def coordinator_defs example_defs bucket_defs wait_fresh)
  then have n: "primary_successes HedgeBucket_new LatencyTracker_new [(?w, plain_options)] = 1"
    by simp
  have nb: "\<not> canHedge HedgeBucket_new"
    by (simp add: bucket_defs)
  let ?r = "fetch HedgeBucket_new LatencyTracker_new ?w plain_options"
  from fresh_bucket_needs_twenty_incs
    [where bucket = HedgeBucket_new and tracker = LatencyTracker_new and w = ?w
      and init = plain_options and n = 0 and cs = "[(?w, plain_options)]"
      and c = "(silent_world, plain_options)"]
  have link: "\<not> canHedge HedgeBucket_new \<longrightarrow>
      bucket_after ?r =
        (if primary_succeeded HedgeBucket_new LatencyTracker_new ?w plain_options
         then inc HedgeBucket_new else HedgeBucket_new)"
    and run: "primary_successes HedgeBucket_new LatencyTracker_new [(?w, plain_options)] < 20 \<longrightarrow>
      (\<forall>r \<in> set (fetch_all HedgeBucket_new LatencyTracker_new
          ([(?w, plain_options)] @ [(silent_world, plain_options)])).
         Speculative \<notin> fst ` set (dispatched r))"
    by blast+
  from link nb s have b: "bucket_after ?r = inc HedgeBucket_new"
    by simp
  have fa: "fetch_all HedgeBucket_new LatencyTracker_new
      ([(?w, plain_options)] @ [(silent_world, plain_options)]) =
      [?r, fetch (inc HedgeBucket_new) (tracker_after ?r) silent_world plain_options]"
    by (simp add: b)
  from n have "primary_successes HedgeBucket_new LatencyTracker_new [(?w, plain_options)] < 20"
    by simp
  with run have "\<forall>r \<in> set (fetch_all HedgeBucket_new LatencyTracker_new
          ([(?w, plain_options)] @ [(silent_world, plain_options)])).
         Speculative \<notin> fst ` set (dispatched r)"
    by blast
  then have d: "Speculative \<notin> fst ` set (dispatched (fetch (inc HedgeBucket_new)
     (tracker_after ?r) silent_world plain_options))"
    unfolding fa by simp
  from fresh_bucket_needs_twenty_incs [where n = 19 and tracker = LatencyTracker_new
      and w = silent_world and init = plain_options]
    fresh_bucket_needs_twenty_incs [where n = 20]
  have a: "\<not> canHedge ((inc ^^ 19) HedgeBucket_new)" "canHedge ((inc ^^ 20) HedgeBucket_new)"
    "Speculative \<notin> fst ` set (dispatched (fetch ((inc ^^ 19) HedgeBucket_new) LatencyTracker_new
      silent_world plain_options))"
    by simp_all
  from a n b d show ?thesis
    by blast
qed

end
